theory Spec2Isabelle
  imports Main
begin

section \<open>Values exchanged with the collaborators\<close>

text \<open>
  The three pipeline scripts (\<^verbatim>\<open>pgn_to_JSON.py\<close>, \<^verbatim>\<open>pgn_to_JSON_converter.py\<close>,
  \<^verbatim>\<open>pgn_data_extractor.py\<close>) share \<^verbatim>\<open>analyze_with_stockfish_api\<close> and
  \<^verbatim>\<open>process_game_moves_and_analyze\<close> word for word and differ in
  \<^verbatim>\<open>parse_pgn_and_generate_json\<close>. The libraries they call (requests, python-chess,
  time, the file system) are not part of the repository: they enter the model as
  parameters, and every exception they can raise at a call site is a value.
\<close>

text \<open>
  A parsed JSON document, as \<^verbatim>\<open>response.json()\<close> returns it and as \<^verbatim>\<open>json.dump\<close>
  writes it. The pipeline never reads a number, so a float is kept as its literal.
  A Python dict is an association list in insertion order.
\<close>

datatype json =
    JNull
  | JBool bool
  | JInt int
  | JFloat string
  | JStr string
  | JArr "json list"
  | JObj "(string \<times> json) list"

text \<open>The dict \<^verbatim>\<open>{"error": msg}\<close> that the client returns on each failure path.\<close>

definition error_dict :: "string \<Rightarrow> json" where
  "error_dict msg = JObj [(''error'', JStr msg)]"

text \<open>
  \<^verbatim>\<open>params = {"fen": fen, "depth": depth}\<close>: the query of the GET request.
\<close>

record params =
  p_fen :: string
  p_depth :: int

text \<open>
  What the code reads from a \<^verbatim>\<open>requests.Response\<close>: whether
  \<^verbatim>\<open>raise_for_status()\<close> raises (\<open>Some\<close> the text of the \<^verbatim>\<open>HTTPError\<close>), the body
  \<^verbatim>\<open>text\<close>, and the outcome of \<^verbatim>\<open>json()\<close> (\<open>None\<close> when it raises \<^verbatim>\<open>ValueError\<close>).
  The body is a Python \<^verbatim>\<open>str\<close> whose characters the code tests, so it is the list of
  its Unicode code points.
\<close>

record response =
  resp_raise_for_status :: "string option"
  resp_text :: "nat list"
  resp_json :: "json option"

text \<open>
  \<^verbatim>\<open>requests.get\<close> either raises a \<^verbatim>\<open>RequestException\<close> (carried as its \<^verbatim>\<open>str\<close>) or
  returns a response. The network is a transition on a world \<open>'w\<close>, so the same
  request can be answered differently at different times.
\<close>

datatype get_result = GetRaises string | GetReturns response

type_synonym 'w requests_get = "'w \<Rightarrow> string \<Rightarrow> params \<Rightarrow> get_result \<times> 'w"

section \<open>The analysis client\<close>

text \<open>
  The code points Python's \<^verbatim>\<open>str.isspace\<close> accepts (Unicode category Zs, or
  bidirectional class WS, B or S): the ASCII controls \<^verbatim>\<open>0x09..0x0d\<close> and
  \<^verbatim>\<open>0x1c..0x1f\<close>, the space, NEXT LINE, NO-BREAK SPACE and the spaces and separators
  beyond Latin-1. \<^verbatim>\<open>str.strip()\<close> removes them from both ends.
\<close>

definition isspace :: "nat \<Rightarrow> bool" where
  "isspace c = ((0x09 \<le> c \<and> c \<le> 0x0D) \<or> (0x1C \<le> c \<and> c \<le> 0x20)
     \<or> c = 0x85 \<or> c = 0xA0 \<or> c = 0x1680 \<or> (0x2000 \<le> c \<and> c \<le> 0x200A)
     \<or> c = 0x2028 \<or> c = 0x2029 \<or> c = 0x202F \<or> c = 0x205F \<or> c = 0x3000)"

definition strip :: "nat list \<Rightarrow> nat list" where
  "strip s = rev (dropWhile isspace (rev (dropWhile isspace s)))"

definition api_url :: string where
  "api_url = ''https://stockfish.online/api/s/v2.php''"

text \<open>
  Lines 18-19 of \<^verbatim>\<open>analyze_with_stockfish_api\<close>: the rebinding of \<^verbatim>\<open>depth\<close>;
  and lines 23-26: the query built from it.
\<close>

definition effective_depth :: "int \<Rightarrow> int" where
  "effective_depth depth = (if depth \<ge> 16 then 15 else depth)"

definition request_params :: "string \<Rightarrow> int \<Rightarrow> params" where
  "request_params fen depth = \<lparr>p_fen = fen, p_depth = effective_depth depth\<rparr>"

text \<open>
  Lines 28-41: the body of the \<^verbatim>\<open>try\<close>, given what \<^verbatim>\<open>requests.get\<close> did. Both
  \<^verbatim>\<open>requests.get\<close> and \<^verbatim>\<open>raise_for_status\<close> raise inside the outer \<^verbatim>\<open>try\<close> and reach the
  same handler; the \<^verbatim>\<open>ValueError\<close> of \<^verbatim>\<open>json()\<close> is caught by the inner one.
\<close>

definition handle_response :: "get_result \<Rightarrow> json" where
  "handle_response r =
     (case r of
        GetRaises e \<Rightarrow> error_dict (''Request failed: '' @ e)
      | GetReturns resp \<Rightarrow>
          (case resp_raise_for_status resp of
             Some e \<Rightarrow> error_dict (''Request failed: '' @ e)
           | None \<Rightarrow>
               if strip (resp_text resp) = [] then error_dict ''Empty response from API''
               else (case resp_json resp of
                       Some j \<Rightarrow> j
                     | None \<Rightarrow> error_dict ''Invalid JSON response'')))"

definition analyze_with_stockfish_api ::
  "'w requests_get \<Rightarrow> string \<Rightarrow> int \<Rightarrow> 'w \<Rightarrow> json \<times> 'w" where
  "analyze_with_stockfish_api get fen depth w =
     (case get w api_url (request_params fen depth) of
        (r, w') \<Rightarrow> (handle_response r, w'))"

section \<open>Replaying a game and analysing every position\<close>

text \<open>
  What is used of python-chess, over a board type \<open>'b\<close> and a move type \<open>'m\<close>: the
  move-application operation (\<open>None\<close> when it rejects the move on that board),
  \<^verbatim>\<open>board.fen()\<close>, \<^verbatim>\<open>move.uci()\<close> and the standard starting position \<^verbatim>\<open>chess.Board()\<close>.
\<close>

record ('b, 'm) chess =
  board_push :: "'b \<Rightarrow> 'm \<Rightarrow> 'b option"
  board_fen :: "'b \<Rightarrow> string"
  move_uci :: "'m \<Rightarrow> string"
  new_board :: 'b

text \<open>
  The exceptions that leave the pipeline: the one of a rejected move (the
  specification's \<^verbatim>\<open>IllegalMoveError\<close>), the \<^verbatim>\<open>ValueError\<close> of \<^verbatim>\<open>game.board()\<close> and the
  \<^verbatim>\<open>FileNotFoundError\<close> of \<^verbatim>\<open>open\<close>.
\<close>

datatype error = IllegalMoveError | ValueError | FileNotFoundError

text \<open>
  A \<^verbatim>\<open>chess.pgn.Game\<close>: \<^verbatim>\<open>game.headers\<close>, what \<^verbatim>\<open>game.board()\<close> gives and
  \<^verbatim>\<open>game.mainline_moves()\<close>. \<^verbatim>\<open>game.board()\<close> builds the starting position from the
  headers (a FEN header may set it up with either side to move) and raises
  \<^verbatim>\<open>ValueError\<close> when they name a variant or a position it cannot use: then the field
  is \<open>None\<close>.
\<close>

record ('b, 'm) game =
  headers :: "string \<rightharpoonup> string"
  board :: "'b option"
  mainline_moves :: "'m list"

text \<open>The dict \<^verbatim>\<open>move_data\<close>, one per move, with its five keys.\<close>

record move_data =
  Move_Number :: int
  Player :: string
  Move :: string
  FEN :: string
  Stockfish_Analysis :: json

text \<open>
  The \<^verbatim>\<open>for move in game.mainline_moves()\<close> loop of
  \<^verbatim>\<open>process_game_moves_and_analyze\<close>, with its three mutable variables (\<^verbatim>\<open>board\<close>,
  here \<open>cur\<close>; \<^verbatim>\<open>move_counter\<close>; \<^verbatim>\<open>game_data\<close>) and the world passed along. There is
  no \<^verbatim>\<open>try\<close> in the function: an exception of \<^verbatim>\<open>board.push\<close> or of
  \<^verbatim>\<open>game.board()\<close> (line 54, before the loop) leaves it at once.
\<close>

fun moves_loop ::
  "('b, 'm) chess \<Rightarrow> 'w requests_get \<Rightarrow> 'm list \<Rightarrow> 'b \<Rightarrow> int \<Rightarrow> move_data list \<Rightarrow> 'w
     \<Rightarrow> (error + move_data list) \<times> 'w" where
  "moves_loop lib get [] cur move_counter game_data w = (Inr game_data, w)"
| "moves_loop lib get (move # rest) cur move_counter game_data w =
     (case board_push lib cur move of
        None \<Rightarrow> (Inl IllegalMoveError, w)
      | Some cur' \<Rightarrow>
          (let move_counter' = move_counter + 1;
               player = (if move_counter' mod 2 = 1 then ''White'' else ''Black'');
               current_fen = board_fen lib cur'
           in case analyze_with_stockfish_api get current_fen 15 w of
                (stockfish_output, w') \<Rightarrow>
                  moves_loop lib get rest cur' move_counter'
                    (game_data @ [\<lparr>Move_Number = move_counter', Player = player,
                                   Move = move_uci lib move, FEN = current_fen,
                                   Stockfish_Analysis = stockfish_output\<rparr>]) w'))"

definition process_game_moves_and_analyze ::
  "('b, 'm) chess \<Rightarrow> 'w requests_get \<Rightarrow> ('b, 'm) game \<Rightarrow> 'w
     \<Rightarrow> (error + move_data list) \<times> 'w" where
  "process_game_moves_and_analyze lib get game w =
     (case board game of
        None \<Rightarrow> (Inl ValueError, w)
      | Some start \<Rightarrow> moves_loop lib get (mainline_moves game) start 0 [] w)"

text \<open>
  Observers of a move list, used to state properties: the first ply (counted from 1) at
  which \<^verbatim>\<open>board.push\<close> rejects a move, if any; and the boards reached, ply by ply, as
  long as the moves are accepted.
\<close>

fun rejected_ply :: "('b, 'm) chess \<Rightarrow> 'b \<Rightarrow> 'm list \<Rightarrow> nat option" where
  "rejected_ply lib cur [] = None"
| "rejected_ply lib cur (move # rest) =
     (case board_push lib cur move of
        None \<Rightarrow> Some 1
      | Some cur' \<Rightarrow> map_option Suc (rejected_ply lib cur' rest))"

fun boards_after :: "('b, 'm) chess \<Rightarrow> 'b \<Rightarrow> 'm list \<Rightarrow> 'b list" where
  "boards_after lib cur [] = []"
| "boards_after lib cur (move # rest) =
     (case board_push lib cur move of
        None \<Rightarrow> []
      | Some cur' \<Rightarrow> cur' # boards_after lib cur' rest)"

text \<open>The value of \<^verbatim>\<open>player\<close> at ply \<open>k\<close>.\<close>

definition player_of :: "int \<Rightarrow> string" where
  "player_of k = (if k mod 2 = 1 then ''White'' else ''Black'')"

section \<open>The orchestrators\<close>

text \<open>
  \<^verbatim>\<open>dict.get(key, default)\<close> on \<^verbatim>\<open>game.headers\<close>, and the dict \<^verbatim>\<open>game_metadata\<close> of each
  script, in the order the keys are written.
\<close>

definition headers_get :: "(string \<rightharpoonup> string) \<Rightarrow> string \<Rightarrow> string \<Rightarrow> string" where
  "headers_get h key dflt = (case h key of Some v \<Rightarrow> v | None \<Rightarrow> dflt)"

text \<open>\<^verbatim>\<open>pgn_to_JSON.py\<close>, lines 105-118.\<close>

definition game_metadata :: "(string \<rightharpoonup> string) \<Rightarrow> (string \<times> string) list" where
  "game_metadata h =
     [(''Event'', headers_get h ''Event'' ''Unknown Event''),
      (''White'', headers_get h ''White'' ''Unknown Player''),
      (''Black'', headers_get h ''Black'' ''Unknown Player''),
      (''Result'', headers_get h ''Result'' ''Unknown Result''),
      (''WhiteElo'', headers_get h ''WhiteElo'' ''Unknown Elo''),
      (''BlackElo'', headers_get h ''BlackElo'' ''Unknown Elo''),
      (''WhiteRatingDiff'', headers_get h ''WhiteRatingDiff'' ''Unknown Diff''),
      (''BlackRatingDiff'', headers_get h ''BlackRatingDiff'' ''Unknown Diff''),
      (''ECO'', headers_get h ''ECO'' ''Unknown ECO''),
      (''Opening'', headers_get h ''Opening'' ''Unknown Opening''),
      (''Termination'', headers_get h ''Termination'' ''Unknown Termination''),
      (''Round'', headers_get h ''Round'' ''Unknown Round'')]"

text \<open>\<^verbatim>\<open>pgn_to_JSON_converter.py\<close>, lines 107-120.\<close>

definition game_metadata_converter :: "(string \<rightharpoonup> string) \<Rightarrow> (string \<times> string) list" where
  "game_metadata_converter h =
     [(''Event'', headers_get h ''Event'' ''?''),
      (''White'', headers_get h ''White'' ''?''),
      (''Black'', headers_get h ''Black'' ''?''),
      (''Result'', headers_get h ''Result'' ''?''),
      (''WhiteElo'', headers_get h ''WhiteElo'' ''?''),
      (''BlackElo'', headers_get h ''BlackElo'' ''?''),
      (''WhiteRatingDiff'', headers_get h ''WhiteRatingDiff'' ''?''),
      (''BlackRatingDiff'', headers_get h ''BlackRatingDiff'' ''?''),
      (''ECO'', headers_get h ''ECO'' ''?''),
      (''Opening'', headers_get h ''Opening'' ''?''),
      (''Termination'', headers_get h ''Termination'' ''?''),
      (''Round'', headers_get h ''Round'' ''?'')]"

text \<open>\<^verbatim>\<open>pgn_data_extractor.py\<close>, lines 104-109.\<close>

definition game_metadata_extractor :: "(string \<rightharpoonup> string) \<Rightarrow> (string \<times> string) list" where
  "game_metadata_extractor h =
     [(''Event'', headers_get h ''Event'' ''Unknown Event''),
      (''White'', headers_get h ''White'' ''Unknown Player''),
      (''Black'', headers_get h ''Black'' ''Unknown Player''),
      (''Result'', headers_get h ''Result'' ''Unknown Result'')]"

text \<open>The dict \<^verbatim>\<open>game_data\<close>: the record written for one game.\<close>

record game_data =
  Metadata :: "(string \<times> string) list"
  Moves :: "move_data list"

text \<open>
  What a run does to the outside, in order: the lines it prints, the JSON documents it
  writes and the pauses it takes. A game file is named by its number \<open>i\<close>
  (\<^verbatim>\<open>game{i}.pgn\<close>, \<^verbatim>\<open>processed_game{i}.json\<close>).
\<close>

datatype event =
    Print_skipping int
  | Print_analyzing int
  | Json_dump int game_data
  | Print_saved int
  | Print_pausing
  | Sleep int
  | Print_end_of_file
  | Json_dump_all "game_data list"
  | Print_all_saved

record 'w run =
  world :: 'w
  trace :: "event list"

text \<open>
  \<^verbatim>\<open>open(pgn_file_path, 'r')\<close> followed by \<^verbatim>\<open>chess.pgn.read_game\<close>: the file is missing
  (\<^verbatim>\<open>open\<close> raises), holds no game (\<^verbatim>\<open>read_game\<close> returns \<^verbatim>\<open>None\<close>), or holds a game.
\<close>

datatype ('b, 'm) pgn_file = No_file | Empty_file | Game_file "('b, 'm) game"

text \<open>
  \<^verbatim>\<open>pgn_to_JSON.py\<close>: the loop \<^verbatim>\<open>for i in range(1, 21)\<close> of
  \<^verbatim>\<open>parse_pgn_and_generate_json\<close>. Nothing in the loop catches an exception, so the
  first one ends the run with the trace as it stands. Creating the output folder and
  opening the output file are taken to succeed.
\<close>

fun games_loop ::
  "('b, 'm) chess \<Rightarrow> 'w requests_get \<Rightarrow> (int \<Rightarrow> ('b, 'm) pgn_file) \<Rightarrow> int list \<Rightarrow> 'w run
     \<Rightarrow> error option \<times> 'w run" where
  "games_loop lib get dataset [] st = (None, st)"
| "games_loop lib get dataset (i # rest) st =
     (case dataset i of
        No_file \<Rightarrow> (Some FileNotFoundError, st)
      | Empty_file \<Rightarrow>
          games_loop lib get dataset rest (st\<lparr>trace := trace st @ [Print_skipping i]\<rparr>)
      | Game_file game \<Rightarrow>
          (case process_game_moves_and_analyze lib get game (world st) of
             (Inl e, w') \<Rightarrow> (Some e, st\<lparr>world := w'\<rparr>)
           | (Inr game_moves_data, w') \<Rightarrow>
               games_loop lib get dataset rest
                 \<lparr>world = w',
                  trace = trace st @
                    [Json_dump i \<lparr>Metadata = game_metadata (headers game),
                                   Moves = game_moves_data\<rparr>,
                     Print_saved i]\<rparr>))"

definition parse_pgn_and_generate_json ::
  "('b, 'm) chess \<Rightarrow> 'w requests_get \<Rightarrow> (int \<Rightarrow> ('b, 'm) pgn_file) \<Rightarrow> 'w run
     \<Rightarrow> error option \<times> 'w run" where
  "parse_pgn_and_generate_json lib get dataset st = games_loop lib get dataset [1..20] st"

text \<open>
  \<^verbatim>\<open>pgn_to_JSON_converter.py\<close>: the loop \<^verbatim>\<open>for i in range(6, 21)\<close>, with the pause
  of lines 138-141 at the end of the body (a skipped game leaves the body before it).
\<close>

fun games_loop_converter ::
  "('b, 'm) chess \<Rightarrow> 'w requests_get \<Rightarrow> (int \<Rightarrow> ('b, 'm) pgn_file) \<Rightarrow> int list \<Rightarrow> 'w run
     \<Rightarrow> error option \<times> 'w run" where
  "games_loop_converter lib get dataset [] st = (None, st)"
| "games_loop_converter lib get dataset (i # rest) st =
     (case dataset i of
        No_file \<Rightarrow> (Some FileNotFoundError, st)
      | Empty_file \<Rightarrow>
          games_loop_converter lib get dataset rest (st\<lparr>trace := trace st @ [Print_skipping i]\<rparr>)
      | Game_file game \<Rightarrow>
          (case process_game_moves_and_analyze lib get game (world st) of
             (Inl e, w') \<Rightarrow> (Some e, st\<lparr>world := w'\<rparr>)
           | (Inr game_moves_data, w') \<Rightarrow>
               games_loop_converter lib get dataset rest
                 \<lparr>world = w',
                  trace = trace st @
                    [Json_dump i \<lparr>Metadata = game_metadata_converter (headers game),
                                   Moves = game_moves_data\<rparr>,
                     Print_saved i] @
                    (if i mod 2 = 0 then [Print_pausing, Sleep 60] else [])\<rparr>))"

definition parse_pgn_and_generate_json_converter ::
  "('b, 'm) chess \<Rightarrow> 'w requests_get \<Rightarrow> (int \<Rightarrow> ('b, 'm) pgn_file) \<Rightarrow> 'w run
     \<Rightarrow> error option \<times> 'w run" where
  "parse_pgn_and_generate_json_converter lib get dataset st =
     games_loop_converter lib get dataset [6..20] st"

text \<open>
  \<^verbatim>\<open>pgn_data_extractor.py\<close>: the \<^verbatim>\<open>while True\<close> loop reads the games of one file until
  \<^verbatim>\<open>read_game\<close> returns \<^verbatim>\<open>None\<close>; the file is the list of its games, so the loop is a
  recursion on that list. All records are written at the end, in one document.
\<close>

fun read_loop ::
  "('b, 'm) chess \<Rightarrow> 'w requests_get \<Rightarrow> ('b, 'm) game list \<Rightarrow> game_data list \<Rightarrow> int \<Rightarrow> 'w run
     \<Rightarrow> error option \<times> 'w run" where
  "read_loop lib get [] games_data game_counter st =
     (None, st\<lparr>trace := trace st @
        [Print_end_of_file, Json_dump_all games_data, Print_all_saved]\<rparr>)"
| "read_loop lib get (game # rest) games_data game_counter st =
     (let game_counter' = game_counter + 1 in
      case process_game_moves_and_analyze lib get game (world st) of
        (Inl e, w') \<Rightarrow>
          (Some e, \<lparr>world = w', trace = trace st @ [Print_analyzing game_counter']\<rparr>)
      | (Inr game_moves_data, w') \<Rightarrow>
          read_loop lib get rest
            (games_data @ [\<lparr>Metadata = game_metadata_extractor (headers game),
                             Moves = game_moves_data\<rparr>])
            game_counter'
            \<lparr>world = w', trace = trace st @ [Print_analyzing game_counter']\<rparr>)"

definition parse_pgn_and_generate_json_extractor ::
  "('b, 'm) chess \<Rightarrow> 'w requests_get \<Rightarrow> ('b, 'm) game list option \<Rightarrow> 'w run
     \<Rightarrow> error option \<times> 'w run" where
  "parse_pgn_and_generate_json_extractor lib get pgn_file st =
     (case pgn_file of
        None \<Rightarrow> (Some FileNotFoundError, st)
      | Some games \<Rightarrow> read_loop lib get games [] 0 st)"

section \<open>Reading a game from its text\<close>

text \<open>
  The games the pipeline processes are the ones \<^verbatim>\<open>chess.pgn.read_game\<close> returns (line
  99). A game's text gives its headers, the position they set up (\<open>None\<close> when
  \<^verbatim>\<open>game.board()\<close> cannot build one) and the moves of its main line, as written.
  \<^verbatim>\<open>read_game\<close> plays the written moves on a board of its own, starting from the
  position set up (from \<^verbatim>\<open>chess.Board()\<close> when there is none), and keeps them up to the
  first one that is rejected there: it notes the error in \<^verbatim>\<open>game.errors\<close>, skips the
  rest of the line and returns the game with the moves kept.
\<close>

record ('b, 'm) pgn_text =
  text_headers :: "string \<rightharpoonup> string"
  text_board :: "'b option"
  text_moves :: "'m list"

fun moves_kept :: "('b, 'm) chess \<Rightarrow> 'b \<Rightarrow> 'm list \<Rightarrow> 'm list" where
  "moves_kept lib cur [] = []"
| "moves_kept lib cur (move # rest) =
     (case board_push lib cur move of
        None \<Rightarrow> []
      | Some cur' \<Rightarrow> move # moves_kept lib cur' rest)"

definition read_game :: "('b, 'm) chess \<Rightarrow> ('b, 'm) pgn_text \<Rightarrow> ('b, 'm) game" where
  "read_game lib t =
     \<lparr>headers = text_headers t,
      board = text_board t,
      mainline_moves =
        moves_kept lib (case text_board t of Some start \<Rightarrow> start | None \<Rightarrow> new_board lib)
          (text_moves t)\<rparr>"

text \<open>A file of the dataset folder as it lies on disk, and what opening and reading it gives.\<close>

datatype ('b, 'm) pgn_source = Source_missing | Source_empty | Source_game "('b, 'm) pgn_text"

definition open_and_read ::
  "('b, 'm) chess \<Rightarrow> (int \<Rightarrow> ('b, 'm) pgn_source) \<Rightarrow> int \<Rightarrow> ('b, 'm) pgn_file" where
  "open_and_read lib files i =
     (case files i of
        Source_missing \<Rightarrow> No_file
      | Source_empty \<Rightarrow> Empty_file
      | Source_game t \<Rightarrow> Game_file (read_game lib t))"

section \<open>The specification's vocabulary\<close>

text \<open>
  The specification's tagged result (section 3) and its decision procedure for the
  Analysis Client (section 4.2), written from the specification's words, to be compared
  with \<open>handle_response\<close>. A transport failure is an exception of \<^verbatim>\<open>requests.get\<close> or of
  \<^verbatim>\<open>raise_for_status\<close>; its cause is the exception's text.
\<close>

datatype analysis_result =
    Success json
  | Transport_failure string
  | Empty_response
  | Malformed_response

definition transport_cause :: "get_result \<Rightarrow> string option" where
  "transport_cause r =
     (case r of GetRaises e \<Rightarrow> Some e | GetReturns resp \<Rightarrow> resp_raise_for_status resp)"

definition response_body :: "get_result \<Rightarrow> nat list" where
  "response_body r = (case r of GetRaises e \<Rightarrow> [] | GetReturns resp \<Rightarrow> resp_text resp)"

definition parsed_body :: "get_result \<Rightarrow> json option" where
  "parsed_body r = (case r of GetRaises e \<Rightarrow> None | GetReturns resp \<Rightarrow> resp_json resp)"

definition spec_analysis_result :: "get_result \<Rightarrow> analysis_result" where
  "spec_analysis_result r =
     (case transport_cause r of
        Some cause \<Rightarrow> Transport_failure cause
      | None \<Rightarrow>
          if strip (response_body r) = [] then Empty_response
          else (case parsed_body r of
                  None \<Rightarrow> Malformed_response
                | Some j \<Rightarrow> Success j))"

text \<open>The dict the code returns for each kind of result.\<close>

fun payload :: "analysis_result \<Rightarrow> json" where
  "payload (Success j) = j"
| "payload (Transport_failure cause) = error_dict (''Request failed: '' @ cause)"
| "payload Empty_response = error_dict ''Empty response from API''"
| "payload Malformed_response = error_dict ''Invalid JSON response''"

text \<open>A dict \<^verbatim>\<open>{"error": "Request failed: ..."}\<close>.\<close>

fun is_transport_failure :: "json \<Rightarrow> bool" where
  "is_transport_failure (JObj [(k, JStr msg)]) =
     (k = ''error'' \<and> take 16 msg = ''Request failed: '')"
| "is_transport_failure j = False"

text \<open>
  The recognized header keys, and the placeholder \<^verbatim>\<open>pgn_to_JSON.py\<close> is configured
  with for each (\<^verbatim>\<open>pgn_to_JSON_converter.py\<close> is configured with \<^verbatim>\<open>"?"\<close> for all).
\<close>

definition recognized_keys :: "string list" where
  "recognized_keys =
     [''Event'', ''White'', ''Black'', ''Result'', ''WhiteElo'', ''BlackElo'',
      ''WhiteRatingDiff'', ''BlackRatingDiff'', ''ECO'', ''Opening'', ''Termination'',
      ''Round'']"

definition placeholder :: "string \<Rightarrow> string" where
  "placeholder key =
     (if key = ''White'' \<or> key = ''Black'' then ''Unknown Player''
      else if key = ''WhiteElo'' \<or> key = ''BlackElo'' then ''Unknown Elo''
      else if key = ''WhiteRatingDiff'' \<or> key = ''BlackRatingDiff'' then ''Unknown Diff''
      else ''Unknown '' @ key)"


fun saved_games :: "event list \<Rightarrow> int list" where
  "saved_games [] = []"
| "saved_games (Json_dump i d # es) = i # saved_games es"
| "saved_games (e # es) = saved_games es"

fun pause_counts :: "nat \<Rightarrow> event list \<Rightarrow> nat list" where
  "pause_counts n [] = []"
| "pause_counts n (Json_dump i d # es) = pause_counts (Suc n) es"
| "pause_counts n (Sleep t # es) = n # pause_counts n es"
| "pause_counts n (e # es) = pause_counts n es"

section \<open>Small concrete collaborators\<close>

text \<open>
  A board that records whose turn it is and the moves played; it rejects the empty
  move. Its position string ends with the side to move.
\<close>

definition demo_chess :: "(bool \<times> string, string) chess" where
  "demo_chess =
     \<lparr>board_push = (\<lambda>(white_to_move, played) m.
          if m = [] then None else Some (\<not> white_to_move, played @ m)),
      board_fen = (\<lambda>(white_to_move, played).
          played @ (if white_to_move then '' w'' else '' b'')),
      move_uci = (\<lambda>m. m),
      new_board = (True, [])\<rparr>"

text \<open>
  Three networks over a world that counts the requests made: one that always times
  out, one that answers with the request it was sent, and one whose answer depends on
  the number of the request (a timeout, an HTTP error, a body of a NO-BREAK SPACE and
  a line feed, a body that is not JSON, then JSON).
\<close>

definition demo_get_timeout :: "nat requests_get" where
  "demo_get_timeout w url p = (GetRaises ''timed out'', Suc w)"

definition demo_get_echo :: "nat requests_get" where
  "demo_get_echo w url p =
     (GetReturns \<lparr>resp_raise_for_status = None, resp_text = [0x7B, 0x7D],
        resp_json = Some (JObj [(''fen'', JStr (p_fen p)), (''depth'', JInt (p_depth p))])\<rparr>,
      Suc w)"

definition demo_get_script :: "nat requests_get" where
  "demo_get_script w url p =
     (if w = 0 then GetRaises ''timed out''
      else if w = 1 then
        GetReturns \<lparr>resp_raise_for_status = Some ''500 Server Error'', resp_text = [0x62, 0x75, 0x73, 0x79],
          resp_json = None\<rparr>
      else if w = 2 then
        GetReturns \<lparr>resp_raise_for_status = None, resp_text = [0xA0, 0x0A],
          resp_json = None\<rparr>
      else if w = 3 then
        GetReturns \<lparr>resp_raise_for_status = None, resp_text = [0x3C, 0x68, 0x74, 0x6D, 0x6C, 0x3E], resp_json = None\<rparr>
      else
        GetReturns \<lparr>resp_raise_for_status = None, resp_text = [0x5B, 0x31, 0x5D],
          resp_json = Some (JArr [JInt 1])\<rparr>,
      Suc w)"

definition demo_game :: "(bool \<times> string, string) game" where
  "demo_game = \<lparr>headers = [''Event'' \<mapsto> ''Club match''], board = Some (True, []),
     mainline_moves = [''e2e4'', ''e7e5'']\<rparr>"

text \<open>A game set up by a FEN header with Black to move.\<close>

definition demo_game_black_first :: "(bool \<times> string, string) game" where
  "demo_game_black_first = \<lparr>headers = [''FEN'' \<mapsto> ''... b ...''], board = Some (False, []),
     mainline_moves = [''e7e5'', ''e2e4'', ''g8f6'']\<rparr>"

text \<open>
  The text of a game of two moves, and of a game whose second written move the board
  rejects.
\<close>

definition demo_text :: "(bool \<times> string, string) pgn_text" where
  "demo_text = \<lparr>text_headers = [''Event'' \<mapsto> ''Club match''], text_board = Some (True, []),
     text_moves = [''e2e4'', ''e7e5'']\<rparr>"

definition demo_text_illegal :: "(bool \<times> string, string) pgn_text" where
  "demo_text_illegal = \<lparr>text_headers = Map.empty, text_board = Some (True, []),
     text_moves = [''e2e4'', [], ''g1f3'']\<rparr>"

text \<open>
  A dataset folder whose first three files hold a game, the second the one with the
  rejected move; the other files hold none.
\<close>

definition demo_files :: "int \<Rightarrow> (bool \<times> string, string) pgn_source" where
  "demo_files i =
     (if i = 2 then Source_game demo_text_illegal
      else if i = 1 \<or> i = 3 then Source_game demo_text
      else Source_empty)"

text \<open>Game files 6 to 10 hold a game; every other file holds none.\<close>

definition demo_dataset_five :: "int \<Rightarrow> (bool \<times> string, string) pgn_file" where
  "demo_dataset_five i = (if 6 \<le> i \<and> i \<le> 10 then Game_file demo_game else Empty_file)"

definition demo_start :: "nat run" where
  "demo_start = \<lparr>world = 0, trace = []\<rparr>"

section \<open>The replay loop, ply by ply\<close>

lemma moves_loop_accepts:
  "rejected_ply lib cur ms = None \<Longrightarrow>
   \<exists>new w'. moves_loop lib get ms cur c acc w = (Inr (acc @ new), w')
     \<and> length new = length ms
     \<and> (\<forall>k < length ms.
           Move_Number (new ! k) = c + 1 + int k
         \<and> Player (new ! k) = player_of (c + 1 + int k)
         \<and> Move (new ! k) = move_uci lib (ms ! k)
         \<and> FEN (new ! k) = board_fen lib (boards_after lib cur ms ! k)
         \<and> (\<exists>wk. Stockfish_Analysis (new ! k)
                = fst (analyze_with_stockfish_api get (FEN (new ! k)) 15 wk)))"
proof (induction ms arbitrary: cur c acc w)
  case Nil
  then show ?case by simp
next
  case (Cons m ms)
  from Cons.prems obtain cur' where push: "board_push lib cur m = Some cur'"
    and rest: "rejected_ply lib cur' ms = None"
    by (auto split: option.splits)
  obtain out w1 where an: "analyze_with_stockfish_api get (board_fen lib cur') 15 w = (out, w1)"
    by (cases "analyze_with_stockfish_api get (board_fen lib cur') 15 w")
  define r where "r = \<lparr>Move_Number = c + 1, Player = player_of (c + 1),
    Move = move_uci lib m, FEN = board_fen lib cur', Stockfish_Analysis = out\<rparr>"
  from Cons.IH [OF rest, of "c + 1" "acc @ [r]" w1]
  obtain new w' where run: "moves_loop lib get ms cur' (c + 1) (acc @ [r]) w1 = (Inr ((acc @ [r]) @ new), w')"
    and len: "length new = length ms"
    and each: "\<forall>k < length ms.
           Move_Number (new ! k) = c + 1 + 1 + int k
         \<and> Player (new ! k) = player_of (c + 1 + 1 + int k)
         \<and> Move (new ! k) = move_uci lib (ms ! k)
         \<and> FEN (new ! k) = board_fen lib (boards_after lib cur' ms ! k)
         \<and> (\<exists>wk. Stockfish_Analysis (new ! k)
                = fst (analyze_with_stockfish_api get (FEN (new ! k)) 15 wk))"
    by blast
  have step: "moves_loop lib get (m # ms) cur c acc w = (Inr (acc @ (r # new)), w')"
    using push an run by (simp add: r_def player_of_def Let_def)
  have first: "Stockfish_Analysis r = fst (analyze_with_stockfish_api get (FEN r) 15 w)"
    using an by (simp add: r_def)
  have every: "Move_Number ((r # new) ! k) = c + 1 + int k
         \<and> Player ((r # new) ! k) = player_of (c + 1 + int k)
         \<and> Move ((r # new) ! k) = move_uci lib ((m # ms) ! k)
         \<and> FEN ((r # new) ! k) = board_fen lib (boards_after lib cur (m # ms) ! k)
         \<and> (\<exists>wk. Stockfish_Analysis ((r # new) ! k)
                = fst (analyze_with_stockfish_api get (FEN ((r # new) ! k)) 15 wk))"
    if "k < length (m # ms)" for k
  proof (cases k)
    case 0
    have "\<exists>wk. Stockfish_Analysis r = fst (analyze_with_stockfish_api get (FEN r) 15 wk)"
      using first by blast
    with 0 show ?thesis by (simp add: r_def push)
  next
    case (Suc j)
    with that have j: "j < length ms" by simp
    from each j have
      "Move_Number (new ! j) = c + 1 + 1 + int j
         \<and> Player (new ! j) = player_of (c + 1 + 1 + int j)
         \<and> Move (new ! j) = move_uci lib (ms ! j)
         \<and> FEN (new ! j) = board_fen lib (boards_after lib cur' ms ! j)
         \<and> (\<exists>wk. Stockfish_Analysis (new ! j)
                = fst (analyze_with_stockfish_api get (FEN (new ! j)) 15 wk))"
      by blast
    with Suc show ?thesis by (auto simp add: push add.assoc)
  qed
  have len': "length (r # new) = length (m # ms)"
    using len by simp
  from step len' every show ?case by blast
qed

lemma moves_loop_rejects:
  "rejected_ply lib cur ms = Some k \<Longrightarrow>
   \<exists>w'. moves_loop lib get ms cur c acc w = (Inl IllegalMoveError, w')"
proof (induction ms arbitrary: cur c acc w k)
  case Nil
  then show ?case by simp
next
  case (Cons m ms)
  show ?case
  proof (cases "board_push lib cur m")
    case None
    then show ?thesis by simp
  next
    case (Some cur')
    with Cons.prems obtain j where "rejected_ply lib cur' ms = Some j"
      by auto
    from Cons.IH [OF this] Some show ?thesis
      by (simp add: Let_def split: prod.splits)
  qed
qed

section \<open>The analysis client: depth and result\<close>

lemma handle_response_refines_spec:
  "handle_response r = payload (spec_analysis_result r)"
  by (cases r)
     (simp_all add: handle_response_def spec_analysis_result_def transport_cause_def
        response_body_def parsed_body_def split: option.splits)

text \<open>
  C5. A requested depth of 16 or more is sent to the service as 15: the query built
  from it carries depth 15, and the client's call is the call with depth 15. Requested
  depths 16, 20 and 1000 give effective depth 15, and requested depth 10 gives 10.
\<close>

theorem depth_16_and_above_sends_15:
  "(depth \<ge> 16 \<longrightarrow>
      request_params fen depth = \<lparr>p_fen = fen, p_depth = 15\<rparr>
    \<and> analyze_with_stockfish_api get fen depth w =
        (case get w api_url \<lparr>p_fen = fen, p_depth = 15\<rparr> of
           (r, w') \<Rightarrow> (handle_response r, w')))
   \<and> effective_depth 16 = 15 \<and> effective_depth 20 = 15 \<and> effective_depth 1000 = 15
   \<and> effective_depth 10 = 10"
  by (simp add: analyze_with_stockfish_api_def request_params_def effective_depth_def)

theorem depth_16_and_above_sends_15_witness:
  "(16::int) \<le> 1000
   \<and> request_params ''8/8/8/8/8/8/8/8 w - - 0 1'' 1000
       = \<lparr>p_fen = ''8/8/8/8/8/8/8/8 w - - 0 1'', p_depth = 15\<rparr>
   \<and> analyze_with_stockfish_api demo_get_echo ''8/8/8/8/8/8/8/8 w - - 0 1'' 1000 (0::nat) =
       (JObj [(''fen'', JStr ''8/8/8/8/8/8/8/8 w - - 0 1''), (''depth'', JInt 15)], 1)"
  using depth_16_and_above_sends_15 [of 1000 "''8/8/8/8/8/8/8/8 w - - 0 1''" demo_get_echo 0]
  by (simp add: demo_get_echo_def handle_response_def strip_def isspace_def)

text \<open>
  C10. A requested depth below 16 (zero and negative depths included) is sent to the
  service unchanged: the query carries the requested depth, and the client makes the
  call with it; no depth is refused or raised to a minimum.
\<close>

theorem depth_below_16_sent_unchanged:
  "depth < 16 \<Longrightarrow>
      request_params fen depth = \<lparr>p_fen = fen, p_depth = depth\<rparr>
    \<and> analyze_with_stockfish_api get fen depth w =
        (case get w api_url \<lparr>p_fen = fen, p_depth = depth\<rparr> of
           (r, w') \<Rightarrow> (handle_response r, w'))"
  by (simp add: analyze_with_stockfish_api_def request_params_def effective_depth_def)

theorem depth_below_16_sent_unchanged_witness:
  "(-3::int) < 16 \<and> (0::int) < 16
   \<and> request_params ''k7/8/8/8/8/8/8/K7 w - - 0 1'' 0
       = \<lparr>p_fen = ''k7/8/8/8/8/8/8/K7 w - - 0 1'', p_depth = 0\<rparr>
   \<and> analyze_with_stockfish_api demo_get_echo ''k7/8/8/8/8/8/8/K7 w - - 0 1'' (-3) (0::nat) =
       (JObj [(''fen'', JStr ''k7/8/8/8/8/8/8/K7 w - - 0 1''), (''depth'', JInt (-3))], 1)"
  using depth_below_16_sent_unchanged [of "-3" "''k7/8/8/8/8/8/8/K7 w - - 0 1''" demo_get_echo 0]
    depth_below_16_sent_unchanged [of 0 "''k7/8/8/8/8/8/8/K7 w - - 0 1''" demo_get_echo 0]
  by (simp add: demo_get_echo_def handle_response_def strip_def isspace_def)

text \<open>
  C4. Whatever the request meets, the client returns the payload of exactly one of the
  four kinds of result, the one the specification's decision procedure picks: on a
  transport failure the error dict with the cause's text; otherwise, on a body that is
  empty once stripped, the empty-response dict; otherwise, on a body \<^verbatim>\<open>json()\<close> cannot
  parse, the invalid-JSON dict; otherwise the parsed document itself.
\<close>

theorem analysis_client_precedence:
  "get w api_url (request_params fen depth) = (r, w') \<Longrightarrow>
     analyze_with_stockfish_api get fen depth w = (payload (spec_analysis_result r), w')
   \<and> (\<forall>cause. transport_cause r = Some cause \<longrightarrow>
         fst (analyze_with_stockfish_api get fen depth w)
           = error_dict (''Request failed: '' @ cause))
   \<and> (transport_cause r = None \<and> strip (response_body r) = [] \<longrightarrow>
         fst (analyze_with_stockfish_api get fen depth w)
           = error_dict ''Empty response from API'')
   \<and> (transport_cause r = None \<and> strip (response_body r) \<noteq> [] \<and> parsed_body r = None \<longrightarrow>
         fst (analyze_with_stockfish_api get fen depth w)
           = error_dict ''Invalid JSON response'')
   \<and> (\<forall>j. transport_cause r = None \<and> strip (response_body r) \<noteq> [] \<and> parsed_body r = Some j \<longrightarrow>
         fst (analyze_with_stockfish_api get fen depth w) = j)"
  by (simp add: analyze_with_stockfish_api_def handle_response_refines_spec
        spec_analysis_result_def)

theorem analysis_client_precedence_witness:
  "analyze_with_stockfish_api demo_get_script ''k7/8/8/8/8/8/8/K7 w - - 0 1'' 15 0
     = (error_dict ''Request failed: timed out'', 1)
   \<and> analyze_with_stockfish_api demo_get_script ''k7/8/8/8/8/8/8/K7 w - - 0 1'' 15 1
     = (error_dict ''Request failed: 500 Server Error'', 2)
   \<and> analyze_with_stockfish_api demo_get_script ''k7/8/8/8/8/8/8/K7 w - - 0 1'' 15 2
     = (error_dict ''Empty response from API'', 3)
   \<and> analyze_with_stockfish_api demo_get_script ''k7/8/8/8/8/8/8/K7 w - - 0 1'' 15 3
     = (error_dict ''Invalid JSON response'', 4)
   \<and> analyze_with_stockfish_api demo_get_script ''k7/8/8/8/8/8/8/K7 w - - 0 1'' 15 4
     = (JArr [JInt 1], 5)"
  using
    analysis_client_precedence [of demo_get_script 0 "''k7/8/8/8/8/8/8/K7 w - - 0 1''" 15
      "GetRaises ''timed out''" 1]
    analysis_client_precedence [of demo_get_script 1 "''k7/8/8/8/8/8/8/K7 w - - 0 1''" 15
      "GetReturns \<lparr>resp_raise_for_status = Some ''500 Server Error'', resp_text = [0x62, 0x75, 0x73, 0x79],
          resp_json = None\<rparr>" 2]
    analysis_client_precedence [of demo_get_script 2 "''k7/8/8/8/8/8/8/K7 w - - 0 1''" 15
      "GetReturns \<lparr>resp_raise_for_status = None, resp_text = [0xA0, 0x0A],
          resp_json = None\<rparr>" 3]
    analysis_client_precedence [of demo_get_script 3 "''k7/8/8/8/8/8/8/K7 w - - 0 1''" 15
      "GetReturns \<lparr>resp_raise_for_status = None, resp_text = [0x3C, 0x68, 0x74, 0x6D, 0x6C, 0x3E], resp_json = None\<rparr>" 4]
    analysis_client_precedence [of demo_get_script 4 "''k7/8/8/8/8/8/8/K7 w - - 0 1''" 15
      "GetReturns \<lparr>resp_raise_for_status = None, resp_text = [0x5B, 0x31, 0x5D],
          resp_json = Some (JArr [JInt 1])\<rparr>" 5]
  by (simp add: demo_get_script_def spec_analysis_result_def transport_cause_def
        response_body_def parsed_body_def strip_def isspace_def)

section \<open>One record per move, sides by ply parity\<close>

lemma boards_after_length:
  "rejected_ply lib cur ms = None \<Longrightarrow> length (boards_after lib cur ms) = length ms"
  by (induction ms arbitrary: cur) (auto split: option.splits)

lemma process_without_board:
  "board game = None \<Longrightarrow> process_game_moves_and_analyze lib get game w = (Inl ValueError, w)"
  by (simp add: process_game_moves_and_analyze_def)

lemma process_accepts:
  assumes start: "board game = Some start"
    and legal: "rejected_ply lib start (mainline_moves game) = None"
  shows "\<exists>recs w'. process_game_moves_and_analyze lib get game w = (Inr recs, w')
     \<and> length recs = length (mainline_moves game)
     \<and> (\<forall>k < length (mainline_moves game).
           Move_Number (recs ! k) = 1 + int k
         \<and> Player (recs ! k) = player_of (1 + int k)
         \<and> Move (recs ! k) = move_uci lib (mainline_moves game ! k)
         \<and> FEN (recs ! k) = board_fen lib (boards_after lib start (mainline_moves game) ! k)
         \<and> (\<exists>wk. Stockfish_Analysis (recs ! k)
                = fst (analyze_with_stockfish_api get (FEN (recs ! k)) 15 wk)))"
  using moves_loop_accepts [OF legal, of get 0 "[]" w]
  by (simp add: process_game_moves_and_analyze_def start)

lemma process_rejects:
  assumes start: "board game = Some start"
    and rejected: "rejected_ply lib start (mainline_moves game) = Some k"
  shows "\<exists>w'. process_game_moves_and_analyze lib get game w = (Inl IllegalMoveError, w')"
  using moves_loop_rejects [OF rejected, of get 0 "[]" w]
  by (simp add: process_game_moves_and_analyze_def start)

text \<open>
  C1. A game with a starting position whose N moves the board all accepts is
  processed into exactly N move records, one per move and in the order of the moves: the move numbers are 1, ..., N
  (strictly increasing), the k-th record holds the k-th move and the position reached
  by it. No move is merged with another and none is dropped.
\<close>

theorem one_record_per_move:
  assumes start: "board game = Some start"
    and legal: "rejected_ply lib start (mainline_moves game) = None"
  shows "\<exists>recs w'. process_game_moves_and_analyze lib get game w = (Inr recs, w')
     \<and> length recs = length (mainline_moves game)
     \<and> map Move_Number recs = [1 .. int (length (mainline_moves game))]
     \<and> sorted_wrt (<) (map Move_Number recs)
     \<and> map Move recs = map (move_uci lib) (mainline_moves game)
     \<and> map FEN recs
         = map (board_fen lib) (boards_after lib start (mainline_moves game))"
proof -
  from process_accepts [OF start legal, of get w] obtain recs w'
    where run: "process_game_moves_and_analyze lib get game w = (Inr recs, w')"
      and len: "length recs = length (mainline_moves game)"
      and each: "\<forall>k < length (mainline_moves game).
           Move_Number (recs ! k) = 1 + int k
         \<and> Player (recs ! k) = player_of (1 + int k)
         \<and> Move (recs ! k) = move_uci lib (mainline_moves game ! k)
         \<and> FEN (recs ! k) = board_fen lib (boards_after lib start (mainline_moves game) ! k)
         \<and> (\<exists>wk. Stockfish_Analysis (recs ! k)
                = fst (analyze_with_stockfish_api get (FEN (recs ! k)) 15 wk))"
    by blast
  have numbers: "map Move_Number recs = [1 .. int (length (mainline_moves game))]"
    using len each by (intro nth_equalityI) simp_all
  then have sorted: "sorted_wrt (<) (map Move_Number recs)"
    by simp
  have moves: "map Move recs = map (move_uci lib) (mainline_moves game)"
    using len each by (intro nth_equalityI) simp_all
  have fens: "map FEN recs
         = map (board_fen lib) (boards_after lib start (mainline_moves game))"
    using len each boards_after_length [OF legal] by (intro nth_equalityI) simp_all
  from run len numbers sorted moves fens show ?thesis by blast
qed

text \<open>
  C2. In the records of any processed game, whatever its headers and its starting
  position (so whichever side the header puts on move), the record of ply k is
  numbered k and names White when k is odd and Black when k is even; hence ply 1 is
  White's and consecutive plies name different sides.
\<close>

theorem players_alternate_from_white:
  assumes "process_game_moves_and_analyze lib get game w = (Inr recs, w')"
    and "k < length recs"
  shows "Move_Number (recs ! k) = int (Suc k)
     \<and> Player (recs ! k) = (if odd (Suc k) then ''White'' else ''Black'')
     \<and> (Suc k < length recs \<longrightarrow> Player (recs ! Suc k) \<noteq> Player (recs ! k))"
proof -
  obtain start where start: "board game = Some start"
    using process_without_board [of game lib get w] assms(1) by (cases "board game") simp_all
  have ok: "rejected_ply lib start (mainline_moves game) = None"
  proof (cases "rejected_ply lib start (mainline_moves game)")
    case None
    then show ?thesis .
  next
    case (Some j)
    from process_rejects [OF start this, of get w] assms(1) show ?thesis by simp
  qed
  from process_accepts [OF start ok, of get w] assms(1)
  have len: "length recs = length (mainline_moves game)"
    and each: "\<forall>k < length (mainline_moves game).
           Move_Number (recs ! k) = 1 + int k \<and> Player (recs ! k) = player_of (1 + int k)"
    by auto
  have parity: "player_of (1 + int j) = (if odd (Suc j) then ''White'' else ''Black'')" for j
    by (simp add: player_of_def) presburger
  from assms(2) len each have "Move_Number (recs ! k) = int (Suc k)"
    and "Player (recs ! k) = (if odd (Suc k) then ''White'' else ''Black'')"
    by (simp_all add: parity)
  moreover have "Player (recs ! Suc k) \<noteq> Player (recs ! k)" if "Suc k < length recs"
    using that len each by (simp add: parity)
  ultimately show ?thesis by blast
qed


text \<open>The equations that evaluate a run on the concrete collaborators.\<close>

lemmas demo_eval =
  process_game_moves_and_analyze_def analyze_with_stockfish_api_def request_params_def
  effective_depth_def handle_response_def strip_def isspace_def error_dict_def
  demo_chess_def demo_game_def demo_game_black_first_def
  demo_get_echo_def demo_get_timeout_def Let_def

theorem one_record_per_move_witness:
  "board demo_game = Some (True, [])
   \<and> rejected_ply demo_chess (True, []) (mainline_moves demo_game) = None
   \<and> (\<exists>recs w'. process_game_moves_and_analyze demo_chess demo_get_echo demo_game (0::nat)
          = (Inr recs, w')
        \<and> length recs = 2
        \<and> map Move_Number recs = [1, 2]
        \<and> map Move recs = [''e2e4'', ''e7e5'']
        \<and> map FEN recs = [''e2e4 b'', ''e2e4e7e5 w''])"
  using one_record_per_move [where lib = demo_chess and game = demo_game
      and start = "(True, [])" and get = demo_get_echo and w = 0]
  by (simp add: demo_eval)

theorem players_alternate_from_white_witness:
  "process_game_moves_and_analyze demo_chess demo_get_timeout demo_game_black_first (0::nat)
     = (Inr [\<lparr>Move_Number = 1, Player = ''White'', Move = ''e7e5'', FEN = ''e7e5 w'',
               Stockfish_Analysis = error_dict ''Request failed: timed out''\<rparr>,
             \<lparr>Move_Number = 2, Player = ''Black'', Move = ''e2e4'', FEN = ''e7e5e2e4 b'',
               Stockfish_Analysis = error_dict ''Request failed: timed out''\<rparr>,
             \<lparr>Move_Number = 3, Player = ''White'', Move = ''g8f6'', FEN = ''e7e5e2e4g8f6 w'',
               Stockfish_Analysis = error_dict ''Request failed: timed out''\<rparr>], 3)
   \<and> board demo_game_black_first = Some (False, [])"
  using players_alternate_from_white [where lib = demo_chess and get = demo_get_timeout
      and game = demo_game_black_first and w = 0 and w' = 3 and k = 0
      and recs = "[\<lparr>Move_Number = 1, Player = ''White'', Move = ''e7e5'', FEN = ''e7e5 w'',
               Stockfish_Analysis = error_dict ''Request failed: timed out''\<rparr>,
             \<lparr>Move_Number = 2, Player = ''Black'', Move = ''e2e4'', FEN = ''e7e5e2e4 b'',
               Stockfish_Analysis = error_dict ''Request failed: timed out''\<rparr>,
             \<lparr>Move_Number = 3, Player = ''White'', Move = ''g8f6'', FEN = ''e7e5e2e4g8f6 w'',
               Stockfish_Analysis = error_dict ''Request failed: timed out''\<rparr>]"]
  by (simp add: demo_eval)

section \<open>Analysis failures inside a game\<close>

lemma analysis_of_transport_failure:
  "transport_cause (fst (get w api_url (request_params fen depth))) = Some cause \<Longrightarrow>
   is_transport_failure (fst (analyze_with_stockfish_api get fen depth w))"
  by (cases "get w api_url (request_params fen depth)")
     (simp add: analyze_with_stockfish_api_def handle_response_refines_spec
        spec_analysis_result_def error_dict_def)

text \<open>
  C6. With a network on which every request fails in transport, a game with a
  starting position whose moves the board accepts is still processed to the end: there is one record per move, and
  the analysis of every record is a transport-failure error dict.
\<close>

theorem transport_failures_do_not_abort:
  assumes start: "board game = Some start"
    and legal: "rejected_ply lib start (mainline_moves game) = None"
    and failing: "\<And>w url p. transport_cause (fst (get w url p)) \<noteq> None"
  shows "\<exists>recs w'. process_game_moves_and_analyze lib get game w = (Inr recs, w')
     \<and> length recs = length (mainline_moves game)
     \<and> list_all (\<lambda>r. is_transport_failure (Stockfish_Analysis r)) recs"
proof -
  from process_accepts [OF start legal, of get w] obtain recs w'
    where run: "process_game_moves_and_analyze lib get game w = (Inr recs, w')"
      and len: "length recs = length (mainline_moves game)"
      and each: "\<forall>k < length (mainline_moves game).
           (\<exists>wk. Stockfish_Analysis (recs ! k)
                = fst (analyze_with_stockfish_api get (FEN (recs ! k)) 15 wk))"
    by blast
  have "is_transport_failure (Stockfish_Analysis (recs ! k))" if "k < length recs" for k
  proof -
    from that len each obtain wk where
      "Stockfish_Analysis (recs ! k) = fst (analyze_with_stockfish_api get (FEN (recs ! k)) 15 wk)"
      by auto
    moreover from failing obtain cause where
      "transport_cause (fst (get wk api_url (request_params (FEN (recs ! k)) 15))) = Some cause"
      by blast
    ultimately show ?thesis
      using analysis_of_transport_failure by metis
  qed
  then have "list_all (\<lambda>r. is_transport_failure (Stockfish_Analysis r)) recs"
    by (simp add: list_all_length)
  with run len show ?thesis by blast
qed

theorem transport_failures_do_not_abort_witness:
  "board demo_game = Some (True, [])
   \<and> rejected_ply demo_chess (True, []) (mainline_moves demo_game) = None
   \<and> (\<exists>recs w'. process_game_moves_and_analyze demo_chess demo_get_timeout demo_game (0::nat)
          = (Inr recs, w')
        \<and> length recs = 2
        \<and> map Stockfish_Analysis recs
            = [error_dict ''Request failed: timed out'', error_dict ''Request failed: timed out''])"
  using transport_failures_do_not_abort [where lib = demo_chess and game = demo_game
      and start = "(True, [])" and get = demo_get_timeout and w = 0]
  by (simp add: demo_eval transport_cause_def)

section \<open>Determinism\<close>

lemma deterministic_analysis:
  assumes "\<forall>w w' url p. fst (get w url p) = fst (get w' url p)"
  shows "fst (analyze_with_stockfish_api get fen d w1)
       = fst (analyze_with_stockfish_api get fen d w2)"
  using assms [rule_format, of w1 api_url "request_params fen d" w2]
  by (auto simp add: analyze_with_stockfish_api_def split: prod.splits)

lemma process_deterministic_from:
  assumes det: "\<forall>w w' url p. fst (get w url p) = fst (get w' url p)"
    and start: "board game = Some start"
  shows "fst (process_game_moves_and_analyze lib get game w1)
       = fst (process_game_moves_and_analyze lib get game w2)"
proof (cases "rejected_ply lib start (mainline_moves game)")
  case (Some k)
  from process_rejects [OF start Some, of get w1] process_rejects [OF start Some, of get w2]
  show ?thesis by auto
next
  case None
  let ?ms = "mainline_moves game"
  from process_accepts [OF start None, of get w1] obtain recs1 v1
    where run1: "process_game_moves_and_analyze lib get game w1 = (Inr recs1, v1)"
      and len1: "length recs1 = length ?ms"
      and each1: "\<forall>k < length ?ms.
           Move_Number (recs1 ! k) = 1 + int k
         \<and> Player (recs1 ! k) = player_of (1 + int k)
         \<and> Move (recs1 ! k) = move_uci lib (?ms ! k)
         \<and> FEN (recs1 ! k) = board_fen lib (boards_after lib start ?ms ! k)
         \<and> (\<exists>wk. Stockfish_Analysis (recs1 ! k)
                = fst (analyze_with_stockfish_api get (FEN (recs1 ! k)) 15 wk))"
    by blast
  from process_accepts [OF start None, of get w2] obtain recs2 v2
    where run2: "process_game_moves_and_analyze lib get game w2 = (Inr recs2, v2)"
      and len2: "length recs2 = length ?ms"
      and each2: "\<forall>k < length ?ms.
           Move_Number (recs2 ! k) = 1 + int k
         \<and> Player (recs2 ! k) = player_of (1 + int k)
         \<and> Move (recs2 ! k) = move_uci lib (?ms ! k)
         \<and> FEN (recs2 ! k) = board_fen lib (boards_after lib start ?ms ! k)
         \<and> (\<exists>wk. Stockfish_Analysis (recs2 ! k)
                = fst (analyze_with_stockfish_api get (FEN (recs2 ! k)) 15 wk))"
    by blast
  have "recs1 ! k = recs2 ! k" if k: "k < length ?ms" for k
  proof (rule move_data.equality)
    from each1 each2 k show "Move_Number (recs1 ! k) = Move_Number (recs2 ! k)"
      and "Player (recs1 ! k) = Player (recs2 ! k)"
      and "Move (recs1 ! k) = Move (recs2 ! k)"
      and fen: "FEN (recs1 ! k) = FEN (recs2 ! k)"
      by simp_all
    from each1 k obtain a where
      a: "Stockfish_Analysis (recs1 ! k) = fst (analyze_with_stockfish_api get (FEN (recs1 ! k)) 15 a)"
      by blast
    from each2 k obtain b where
      b: "Stockfish_Analysis (recs2 ! k) = fst (analyze_with_stockfish_api get (FEN (recs2 ! k)) 15 b)"
      by blast
    from a b fen deterministic_analysis [OF det, where fen = "FEN (recs2 ! k)" and d = 15 and ?w1.0 = a and ?w2.0 = b]
    show "Stockfish_Analysis (recs1 ! k) = Stockfish_Analysis (recs2 ! k)"
      by simp
    show "move_data.more (recs1 ! k) = move_data.more (recs2 ! k)"
      by simp
  qed
  with len1 len2 have "recs1 = recs2"
    by (intro nth_equalityI) simp_all
  with run1 run2 show ?thesis by simp
qed

lemma process_deterministic:
  assumes det: "\<forall>w w' url p. fst (get w url p) = fst (get w' url p)"
  shows "fst (process_game_moves_and_analyze lib get game w1)
       = fst (process_game_moves_and_analyze lib get game w2)"
proof (cases "board game")
  case None
  then show ?thesis by (simp add: process_without_board)
next
  case (Some start)
  from process_deterministic_from [OF det Some] show ?thesis .
qed

lemma read_loop_deterministic:
  assumes det: "\<forall>w w' url p. fst (get w url p) = fst (get w' url p)"
  shows "trace st1 = trace st2 \<Longrightarrow>
     fst (read_loop lib get games games_data c st1) = fst (read_loop lib get games games_data c st2)
   \<and> trace (snd (read_loop lib get games games_data c st1))
       = trace (snd (read_loop lib get games games_data c st2))"
proof (induction games arbitrary: games_data c st1 st2)
  case Nil
  then show ?case by simp
next
  case (Cons game games)
  obtain x1 v1 where p1: "process_game_moves_and_analyze lib get game (world st1) = (x1, v1)"
    by (cases "process_game_moves_and_analyze lib get game (world st1)")
  obtain x2 v2 where p2: "process_game_moves_and_analyze lib get game (world st2) = (x2, v2)"
    by (cases "process_game_moves_and_analyze lib get game (world st2)")
  from process_deterministic [OF det, where lib = lib and game = game and ?w1.0 = "world st1" and ?w2.0 = "world st2"] p1 p2
  have same: "x1 = x2" by simp
  show ?case
  proof (cases x1)
    case (Inl e)
    with same p1 p2
    have "process_game_moves_and_analyze lib get game (world st1) = (Inl e, v1)"
      and "process_game_moves_and_analyze lib get game (world st2) = (Inl e, v2)"
      by simp_all
    with Cons.prems show ?thesis by (simp add: Let_def)
  next
    case (Inr recs)
    with same p1 p2
    have q1: "process_game_moves_and_analyze lib get game (world st1) = (Inr recs, v1)"
      and q2: "process_game_moves_and_analyze lib get game (world st2) = (Inr recs, v2)"
      by simp_all
    let ?gd = "games_data @ [\<lparr>Metadata = game_metadata_extractor (headers game), Moves = recs\<rparr>]"
    let ?s1 = "\<lparr>world = v1, trace = trace st1 @ [Print_analyzing (c + 1)]\<rparr>"
    let ?s2 = "\<lparr>world = v2, trace = trace st2 @ [Print_analyzing (c + 1)]\<rparr>"
    from Cons.prems have "trace ?s1 = trace ?s2" by simp
    from Cons.IH [OF this, where games_data = ?gd and c = "c + 1"] q1 q2 show ?thesis
      by (simp add: Let_def)
  qed
qed

text \<open>
  C9. With a network whose answer to a request does not depend on when it is asked (a
  deterministic analysis client), two runs give the same result: processing a game
  from any two worlds yields the same move records or the same error, and two runs of
  the extractor over the same file write the same documents and print the same lines.
  The metadata of a record is a function of the game's headers alone.
\<close>

theorem deterministic_client_identical_records:
  assumes det: "\<forall>w w' url p. fst (get w url p) = fst (get w' url p)"
  shows "fst (process_game_moves_and_analyze lib get game w1)
           = fst (process_game_moves_and_analyze lib get game w2)
     \<and> (trace st1 = trace st2 \<longrightarrow>
          fst (parse_pgn_and_generate_json_extractor lib get pgn_file st1)
            = fst (parse_pgn_and_generate_json_extractor lib get pgn_file st2)
        \<and> trace (snd (parse_pgn_and_generate_json_extractor lib get pgn_file st1))
            = trace (snd (parse_pgn_and_generate_json_extractor lib get pgn_file st2)))"
proof -
  have "trace st1 = trace st2 \<Longrightarrow>
          fst (parse_pgn_and_generate_json_extractor lib get pgn_file st1)
            = fst (parse_pgn_and_generate_json_extractor lib get pgn_file st2)
        \<and> trace (snd (parse_pgn_and_generate_json_extractor lib get pgn_file st1))
            = trace (snd (parse_pgn_and_generate_json_extractor lib get pgn_file st2))"
    using read_loop_deterministic [OF det, where ?st1.0 = st1 and ?st2.0 = st2 and lib = lib]
    by (cases pgn_file) (simp_all add: parse_pgn_and_generate_json_extractor_def)
  with process_deterministic [OF det, where lib = lib and game = game and ?w1.0 = w1 and ?w2.0 = w2] show ?thesis by blast
qed

theorem deterministic_client_identical_records_witness:
  "fst (process_game_moves_and_analyze demo_chess demo_get_echo demo_game 0)
     = fst (process_game_moves_and_analyze demo_chess demo_get_echo demo_game 7)
   \<and> fst (parse_pgn_and_generate_json_extractor demo_chess demo_get_echo
            (Some [demo_game, demo_game_black_first]) \<lparr>world = 0, trace = []\<rparr>)
       = fst (parse_pgn_and_generate_json_extractor demo_chess demo_get_echo
            (Some [demo_game, demo_game_black_first]) \<lparr>world = 7, trace = []\<rparr>)
   \<and> trace (snd (parse_pgn_and_generate_json_extractor demo_chess demo_get_echo
            (Some [demo_game, demo_game_black_first]) \<lparr>world = 0, trace = []\<rparr>))
       = trace (snd (parse_pgn_and_generate_json_extractor demo_chess demo_get_echo
            (Some [demo_game, demo_game_black_first]) \<lparr>world = 7, trace = []\<rparr>))"
  using deterministic_client_identical_records [where get = demo_get_echo and lib = demo_chess
      and game = demo_game and ?w1.0 = 0 and ?w2.0 = 7
      and ?st1.0 = "\<lparr>world = 0, trace = []\<rparr>" and ?st2.0 = "\<lparr>world = 7, trace = []\<rparr>"
      and pgn_file = "Some [demo_game, demo_game_black_first]"]
  by (simp add: demo_get_echo_def)

section \<open>A move the board rejects\<close>


text \<open>The twenty file numbers of \<^verbatim>\<open>range(1, 21)\<close>, and the equations that evaluate a run.\<close>

lemma upto_1_20: "[1 .. 20] = [1, 2, 3, 4, 5, 6, 7, 8, 9, 10, 11, 12, 13, 14, 15, 16, 17, 18, 19, 20 :: int]"
  by (simp add: upto_rec1)

lemmas run_eval = upto_1_20
  parse_pgn_and_generate_json_def parse_pgn_and_generate_json_converter_def
  open_and_read_def read_game_def demo_files_def demo_text_def demo_text_illegal_def
  demo_dataset_five_def demo_start_def
  game_metadata_def game_metadata_converter_def headers_get_def



text \<open>
  An exception that does leave \<^verbatim>\<open>process_game_moves_and_analyze\<close> (the \<^verbatim>\<open>ValueError\<close>
  of \<^verbatim>\<open>game.board()\<close>) is caught nowhere: it ends the run at that game, with nothing
  written for it.
\<close>

lemma replay_exception_ends_the_run:
  "dataset i = Game_file game \<Longrightarrow>
   process_game_moves_and_analyze lib get game (world st) = (Inl e, w') \<Longrightarrow>
   games_loop lib get dataset (i # rest) st = (Some e, st\<lparr>world := w'\<rparr>)"
  by simp




section \<open>Pacing\<close>

text \<open>
  C7, the code on five completed games. Files 6 to 10 hold a game and the others
  none, so the converter completes exactly five games (6, 7, 8, 9, 10). It pauses
  three times, when 1, 3 and 5 games have been completed (after files 6, 8 and 10):
  the test of line 139 reads the file number, which starts at 6, not the count of
  completed games.
\<close>

theorem pacing_follows_file_number:
  "fst (parse_pgn_and_generate_json_converter demo_chess demo_get_echo demo_dataset_five demo_start)
     = None
   \<and> saved_games (trace (snd
         (parse_pgn_and_generate_json_converter demo_chess demo_get_echo demo_dataset_five demo_start)))
       = [6, 7, 8, 9, 10]
   \<and> pause_counts 0 (trace (snd
         (parse_pgn_and_generate_json_converter demo_chess demo_get_echo demo_dataset_five demo_start)))
       = [1, 3, 5]"
  by (simp add: demo_eval run_eval)

section \<open>Metadata\<close>

lemma recognized_keys_set:
  "key \<in> set recognized_keys \<longleftrightarrow>
     key = ''Event'' \<or> key = ''White'' \<or> key = ''Black'' \<or> key = ''Result''
   \<or> key = ''WhiteElo'' \<or> key = ''BlackElo'' \<or> key = ''WhiteRatingDiff''
   \<or> key = ''BlackRatingDiff'' \<or> key = ''ECO'' \<or> key = ''Opening''
   \<or> key = ''Termination'' \<or> key = ''Round''"
  unfolding recognized_keys_def by (simp only: list.set insert_iff empty_iff simp_thms)

lemma map_of_game_metadata:
  "key \<in> set recognized_keys \<Longrightarrow>
   map_of (game_metadata h) key = Some (headers_get h key (placeholder key))"
  unfolding recognized_keys_set
  apply (elim disjE)
  apply (simp_all only:)
  apply (simp_all add: game_metadata_def placeholder_def)
  done

lemma map_of_game_metadata_converter:
  "key \<in> set recognized_keys \<Longrightarrow>
   map_of (game_metadata_converter h) key = Some (headers_get h key ''?'')"
  unfolding recognized_keys_set
  apply (elim disjE)
  apply (simp_all only:)
  apply (simp_all add: game_metadata_converter_def)
  done

text \<open>
  C8. The metadata of both scripts has exactly the twelve recognized keys, in order,
  whatever the headers hold. A recognized key that the headers lack is mapped to the
  configured placeholder (the key's own \<^verbatim>\<open>"Unknown ..."\<close> string in \<^verbatim>\<open>pgn_to_JSON.py\<close>,
  \<^verbatim>\<open>"?"\<close> in \<^verbatim>\<open>pgn_to_JSON_converter.py\<close>), and one they hold to its value.
\<close>

theorem missing_headers_get_placeholders:
  "map fst (game_metadata h) = recognized_keys
   \<and> map fst (game_metadata_converter h) = recognized_keys
   \<and> (key \<in> set recognized_keys \<longrightarrow>
        map_of (game_metadata h) key
          = Some (case h key of Some v \<Rightarrow> v | None \<Rightarrow> placeholder key)
      \<and> map_of (game_metadata_converter h) key
          = Some (case h key of Some v \<Rightarrow> v | None \<Rightarrow> ''?''))"
proof -
  have "map fst (game_metadata h) = recognized_keys"
    by (simp add: game_metadata_def recognized_keys_def)
  moreover have "map fst (game_metadata_converter h) = recognized_keys"
    by (simp add: game_metadata_converter_def recognized_keys_def)
  moreover have "map_of (game_metadata h) key
          = Some (case h key of Some v \<Rightarrow> v | None \<Rightarrow> placeholder key)"
    if "key \<in> set recognized_keys"
    using map_of_game_metadata [OF that] by (simp only: headers_get_def)
  moreover have "map_of (game_metadata_converter h) key
          = Some (case h key of Some v \<Rightarrow> v | None \<Rightarrow> ''?'')"
    if "key \<in> set recognized_keys"
    using map_of_game_metadata_converter [OF that] by (simp only: headers_get_def)
  ultimately show ?thesis by blast
qed

theorem missing_headers_get_placeholders_witness:
  "''ECO'' \<in> set recognized_keys
   \<and> map_of (game_metadata [''Event'' \<mapsto> ''Club match'']) ''ECO'' = Some ''Unknown ECO''
   \<and> map_of (game_metadata_converter [''Event'' \<mapsto> ''Club match'']) ''ECO'' = Some ''?''
   \<and> map_of (game_metadata [''Event'' \<mapsto> ''Club match'']) ''Event'' = Some ''Club match''
   \<and> map_of (game_metadata Map.empty) ''White'' = Some ''Unknown Player''"
  using missing_headers_get_placeholders [of "[''Event'' \<mapsto> ''Club match'']" "''ECO''"]
    missing_headers_get_placeholders [of "[''Event'' \<mapsto> ''Club match'']" "''Event''"]
    missing_headers_get_placeholders [of Map.empty "''White''"]
  by (simp add: recognized_keys_def placeholder_def)

end
